theory Spec2Isabelle
  imports Main
begin

section \<open>JavaScript values\<close>

text \<open>
  Request bodies, route parameters and channel payloads are JSON values; a property that
  is read but not there is \<open>undefined\<close>. An object is the list of its properties,
  each name once. Numbers are kept as integers: the program only ever tests a number for
  being zero.
\<close>

datatype jval =
    JUndefined
  | JNull
  | JBool bool
  | JNum int
  | JStr string
  | JArr "jval list"
  | JObj "(string \<times> jval) list"

text \<open>The test \<open>!v\<close> of the handlers: \<open>truthy v\<close> is \<open>!!v\<close>.\<close>

fun truthy :: "jval \<Rightarrow> bool" where
  "truthy JUndefined = False"
| "truthy JNull = False"
| "truthy (JBool b) = b"
| "truthy (JNum n) = (n \<noteq> 0)"
| "truthy (JStr s) = (s \<noteq> [])"
| "truthy (JArr xs) = True"
| "truthy (JObj kvs) = True"

text \<open>
  \<open>const { a, b } = v\<close> throws a TypeError when \<open>v\<close> is \<open>undefined\<close> or \<open>null\<close>;
  on any other value each name is bound to the property read, \<open>undefined\<close> when the
  value has no such property. None of the names the handlers read (\<open>senderId\<close>,
  \<open>content\<close>, \<open>conversationId\<close>, \<open>messageId\<close>) is a property of an array, a string, a
  number or a boolean.
\<close>

fun nullish :: "jval \<Rightarrow> bool" where
  "nullish JUndefined = True"
| "nullish JNull = True"
| "nullish v = False"

fun getProp :: "jval \<Rightarrow> string \<Rightarrow> jval" where
  "getProp (JObj kvs) k = (case map_of kvs k of None \<Rightarrow> JUndefined | Some v \<Rightarrow> v)"
| "getProp v k = JUndefined"

text \<open>\<open>a || b\<close>\<close>

definition or_else :: "jval \<Rightarrow> jval \<Rightarrow> jval" where
  "or_else a b = (if truthy a then a else b)"

section \<open>Messages and the two backends\<close>

text \<open>
  The \<open>_id\<close> of a message: absent on the object a handler builds, a uuid string once
  the in-memory path has stored it, an ObjectId once the database has.
\<close>

datatype objectId = ObjectId string

datatype ident = NoId | Uuid string | Oid objectId

record message =
  senderId :: jval
  content :: jval
  conversationId :: jval
  timestamp :: int
  createdAt :: int
  updatedAt :: "int option"
  msg_id :: ident

text \<open>
  \<open>db\<close> is \<open>None\<close> while the variable is unset (the connection has not resolved, or
  has failed), and otherwise holds the documents of the \<open>messages\<close> collection.
  \<open>messages\<close> is the in-memory array.
\<close>

record store =
  db :: "message list option"
  messages :: "message list"

datatype error = TypeError | BSONError

text \<open>\<open>msg._id === messageId\<close>: strict equality of a stored \<open>_id\<close> with a JSON value.
  An ObjectId is an object, never identical to a value that came off the wire.\<close>

fun strict_eq :: "ident \<Rightarrow> jval \<Rightarrow> bool" where
  "strict_eq (Uuid s) (JStr t) = (s = t)"
| "strict_eq NoId JUndefined = True"
| "strict_eq i v = False"

text \<open>\<open>Array.prototype.findIndex\<close>: the index of the first element that satisfies the
  predicate, \<open>-1\<close> when there is none.\<close>

fun findIndex :: "('a \<Rightarrow> bool) \<Rightarrow> 'a list \<Rightarrow> int" where
  "findIndex P [] = - 1"
| "findIndex P (x # xs) =
     (if P x then 0
      else (let i = findIndex P xs in if i = - 1 then - 1 else i + 1))"

text \<open>\<open>xs.splice(i, 1)\<close> for an index \<open>i\<close> in range.\<close>

definition splice1 :: "nat \<Rightarrow> 'a list \<Rightarrow> 'a list" where
  "splice1 i xs = take i xs @ drop (Suc i) xs"

subsection \<open>The collection operations of the database driver\<close>

text \<open>
  The driver is not part of the program; its four calls are modelled as the driver
  documents them, on the list of documents of the collection, and as completing.
  \<^item> \<open>find().sort({timestamp: 1}).toArray()\<close> returns every document, ascending by
    \<open>timestamp\<close> (the order among equal timestamps is the driver's; here it is the
    stored one).
  \<^item> \<open>insertOne(doc)\<close> stores the document, under a generated ObjectId when it has no
    \<open>_id\<close>, and reports the \<open>_id\<close> as \<open>insertedId\<close>. The generated id is an input of
    the model.
  \<^item> \<open>updateOne(filter, {$set: ...})\<close> applies the update to the first document that
    matches; \<open>matchedCount\<close> counts the match, \<open>modifiedCount\<close> counts it only when the
    update changed the document.
  \<^item> \<open>deleteOne(filter)\<close> removes the first document that matches; \<open>deletedCount\<close>
    counts it.
\<close>

definition find_sort_timestamp :: "message list \<Rightarrow> message list" where
  "find_sort_timestamp docs = sort_key timestamp docs"

definition insertOne :: "message \<Rightarrow> objectId \<Rightarrow> message list \<Rightarrow> ident \<times> message list" where
  "insertOne doc generated docs =
     (let insertedId = (if msg_id doc = NoId then Oid generated else msg_id doc)
      in (insertedId, docs @ [doc\<lparr>msg_id := insertedId\<rparr>]))"

record updateResult =
  matchedCount :: nat
  modifiedCount :: nat

fun updateOne ::
  "(message \<Rightarrow> bool) \<Rightarrow> (message \<Rightarrow> message) \<Rightarrow> message list \<Rightarrow> updateResult \<times> message list" where
  "updateOne q u [] = (\<lparr>matchedCount = 0, modifiedCount = 0\<rparr>, [])"
| "updateOne q u (d # ds) =
     (if q d
      then (\<lparr>matchedCount = 1, modifiedCount = (if u d = d then 0 else 1)\<rparr>, u d # ds)
      else (let (r, ds') = updateOne q u ds in (r, d # ds')))"

fun deleteOne :: "(message \<Rightarrow> bool) \<Rightarrow> message list \<Rightarrow> nat \<times> message list" where
  "deleteOne q [] = (0, [])"
| "deleteOne q (d # ds) =
     (if q d then (1, ds)
      else (let (n, ds') = deleteOne q ds in (n, d # ds')))"

subsection \<open>The storage helpers\<close>

text \<open>
  \<open>new ObjectId(messageId)\<close> is the driver's constructor: it throws on an argument it
  does not accept. It is a parameter \<open>newObjectId\<close> of the helpers that call it
  (\<open>Inl\<close> when it throws). \<open>new Date()\<close> is the parameter \<open>now\<close>, in milliseconds;
  \<open>uuidv4()\<close> is the parameter \<open>uuid\<close>.
\<close>

definition getMessages :: "store \<Rightarrow> message list" where
  "getMessages st =
     (case db st of
        Some docs \<Rightarrow> find_sort_timestamp docs
      | None \<Rightarrow> messages st)"

definition saveMessage :: "store \<Rightarrow> message \<Rightarrow> string \<Rightarrow> objectId \<Rightarrow> message \<times> store" where
  "saveMessage st message uuid generated =
     (case db st of
        Some docs \<Rightarrow>
          (let (insertedId, docs') = insertOne message generated docs
           in (message\<lparr>msg_id := insertedId\<rparr>, st\<lparr>db := Some docs'\<rparr>))
      | None \<Rightarrow>
          (let message' = message\<lparr>msg_id := Uuid uuid\<rparr>
           in (message', st\<lparr>messages := messages st @ [message']\<rparr>)))"

definition updateMessage ::
  "(jval \<Rightarrow> error + objectId) \<Rightarrow> store \<Rightarrow> jval \<Rightarrow> jval \<Rightarrow> int \<Rightarrow> error + (bool \<times> store)" where
  "updateMessage newObjectId st messageId content' now =
     (case db st of
        Some docs \<Rightarrow>
          (case newObjectId messageId of
             Inl e \<Rightarrow> Inl e
           | Inr oid \<Rightarrow>
               (let (result, docs') =
                      updateOne (\<lambda>d. msg_id d = Oid oid)
                        (\<lambda>d. d\<lparr>content := content', updatedAt := Some now\<rparr>) docs
                in Inr (modifiedCount result > 0, st\<lparr>db := Some docs'\<rparr>)))
      | None \<Rightarrow>
          (let messageIndex = findIndex (\<lambda>msg. strict_eq (msg_id msg) messageId) (messages st)
           in if messageIndex \<noteq> - 1
              then Inr (True,
                     st\<lparr>messages := (messages st)
                        [nat messageIndex :=
                           (messages st ! nat messageIndex)
                             \<lparr>content := content', updatedAt := Some now\<rparr>]\<rparr>)
              else Inr (False, st)))"

definition deleteMessage ::
  "(jval \<Rightarrow> error + objectId) \<Rightarrow> store \<Rightarrow> jval \<Rightarrow> error + (bool \<times> store)" where
  "deleteMessage newObjectId st messageId =
     (case db st of
        Some docs \<Rightarrow>
          (case newObjectId messageId of
             Inl e \<Rightarrow> Inl e
           | Inr oid \<Rightarrow>
               (let (deletedCount, docs') = deleteOne (\<lambda>d. msg_id d = Oid oid) docs
                in Inr (deletedCount > 0, st\<lparr>db := Some docs'\<rparr>)))
      | None \<Rightarrow>
          (let messageIndex = findIndex (\<lambda>msg. strict_eq (msg_id msg) messageId) (messages st)
           in if messageIndex \<noteq> - 1
              then Inr (True, st\<lparr>messages := splice1 (nat messageIndex) (messages st)\<rparr>)
              else Inr (False, st)))"

section \<open>Responses and emitted events\<close>

text \<open>
  \<open>io.emit\<close> reaches every connection, \<open>socket.emit\<close> the one connection of the
  handler. A payload or response body is a stored message, the list of them, or an object
  literal with its property names.
\<close>

datatype target = ToAll | ToSocket nat

datatype payload =
    Message message
  | Messages "message list"
  | Object "(string \<times> jval) list"

type_synonym emission = "target \<times> string \<times> payload"

text \<open>What a handler does: the HTTP response (status and JSON body; none on the
  channel), the events emitted in order, and the store it leaves.\<close>

record outcome =
  response :: "(nat \<times> payload) option"
  emitted :: "emission list"
  after :: store

definition respond :: "nat \<Rightarrow> payload \<Rightarrow> emission list \<Rightarrow> store \<Rightarrow> outcome" where
  "respond status body es st = \<lparr>response = Some (status, body), emitted = es, after = st\<rparr>"

definition emit_only :: "emission list \<Rightarrow> store \<Rightarrow> outcome" where
  "emit_only es st = \<lparr>response = None, emitted = es, after = st\<rparr>"

section \<open>The REST handlers\<close>

text \<open>
  Each handler is the body of its \<open>try\<close>, the \<open>catch\<close> being the branch taken when
  destructuring or the ObjectId constructor throws. \<open>res.json\<close> without \<open>res.status\<close>
  answers 200.
\<close>

definition get_api_messages :: "store \<Rightarrow> outcome" where
  "get_api_messages st = respond 200 (Messages (getMessages st)) [] st"

text \<open>\<open>t1\<close> and \<open>t2\<close> are the two readings \<open>timestamp: new Date()\<close> and
  \<open>createdAt: new Date()\<close>.\<close>

definition post_api_messages ::
  "store \<Rightarrow> jval \<Rightarrow> int \<Rightarrow> int \<Rightarrow> string \<Rightarrow> objectId \<Rightarrow> outcome" where
  "post_api_messages st body t1 t2 uuid generated =
     (if nullish body
      then respond 500 (Object [(''error'', JStr ''Failed to create message'')]) [] st
      else
        (let senderId' = getProp body ''senderId'';
             content' = getProp body ''content'';
             conversationId' = getProp body ''conversationId''
         in if \<not> truthy senderId' \<or> \<not> truthy content'
            then respond 400 (Object [(''error'', JStr ''senderId and content are required'')]) [] st
            else
              (let message =
                     \<lparr>senderId = senderId', content = content',
                      conversationId = or_else conversationId' (JStr ''general''),
                      timestamp = t1, createdAt = t2, updatedAt = None, msg_id = NoId\<rparr>;
                   (savedMessage, st') = saveMessage st message uuid generated
               in respond 201 (Message savedMessage)
                    [(ToAll, ''newMessage'', Message savedMessage)] st')))"

definition put_api_messages_id ::
  "(jval \<Rightarrow> error + objectId) \<Rightarrow> store \<Rightarrow> string \<Rightarrow> jval \<Rightarrow> int \<Rightarrow> outcome" where
  "put_api_messages_id newObjectId st id' body now =
     (if nullish body
      then respond 500 (Object [(''error'', JStr ''Failed to update message'')]) [] st
      else
        (let content' = getProp body ''content''
         in if \<not> truthy content'
            then respond 400 (Object [(''error'', JStr ''content is required'')]) [] st
            else
              (case updateMessage newObjectId st (JStr id') content' now of
                 Inl e \<Rightarrow>
                   respond 500 (Object [(''error'', JStr ''Failed to update message'')]) [] st
               | Inr (updated, st') \<Rightarrow>
                   if updated
                   then respond 200
                          (Object [(''success'', JBool True),
                                   (''message'', JStr ''Message updated successfully'')])
                          [(ToAll, ''messageUpdated'',
                            Object [(''messageId'', JStr id'), (''content'', content')])] st'
                   else respond 404 (Object [(''error'', JStr ''Message not found'')]) [] st')))"

definition delete_api_messages_id ::
  "(jval \<Rightarrow> error + objectId) \<Rightarrow> store \<Rightarrow> string \<Rightarrow> outcome" where
  "delete_api_messages_id newObjectId st id' =
     (case deleteMessage newObjectId st (JStr id') of
        Inl e \<Rightarrow> respond 500 (Object [(''error'', JStr ''Failed to delete message'')]) [] st
      | Inr (deleted, st') \<Rightarrow>
          if deleted
          then respond 200
                 (Object [(''success'', JBool True),
                          (''message'', JStr ''Message deleted successfully'')])
                 [(ToAll, ''messageDeleted'', Object [(''messageId'', JStr id')])] st'
          else respond 404 (Object [(''error'', JStr ''Message not found'')]) [] st')"

section \<open>The channel handlers\<close>

text \<open>\<open>sid\<close> identifies the connection the handler was registered on.\<close>

definition on_connection :: "store \<Rightarrow> nat \<Rightarrow> outcome" where
  "on_connection st sid = emit_only [(ToSocket sid, ''existingMessages'', Messages (getMessages st))] st"

definition on_sendMessage ::
  "store \<Rightarrow> nat \<Rightarrow> jval \<Rightarrow> int \<Rightarrow> int \<Rightarrow> string \<Rightarrow> objectId \<Rightarrow> outcome" where
  "on_sendMessage st sid data t1 t2 uuid generated =
     (if nullish data
      then emit_only [(ToSocket sid, ''error'', Object [(''message'', JStr ''Failed to send message'')])] st
      else
        (let senderId' = getProp data ''senderId'';
             content' = getProp data ''content'';
             conversationId' = getProp data ''conversationId''
         in if \<not> truthy senderId' \<or> \<not> truthy content'
            then emit_only
                   [(ToSocket sid, ''error'',
                     Object [(''message'', JStr ''senderId and content are required'')])] st
            else
              (let message =
                     \<lparr>senderId = senderId', content = content',
                      conversationId = or_else conversationId' (JStr ''general''),
                      timestamp = t1, createdAt = t2, updatedAt = None, msg_id = NoId\<rparr>;
                   (savedMessage, st') = saveMessage st message uuid generated
               in emit_only [(ToAll, ''newMessage'', Message savedMessage)] st')))"

definition on_updateMessage ::
  "(jval \<Rightarrow> error + objectId) \<Rightarrow> store \<Rightarrow> nat \<Rightarrow> jval \<Rightarrow> int \<Rightarrow> outcome" where
  "on_updateMessage newObjectId st sid data now =
     (if nullish data
      then emit_only [(ToSocket sid, ''error'', Object [(''message'', JStr ''Failed to update message'')])] st
      else
        (let messageId = getProp data ''messageId'';
             content' = getProp data ''content''
         in if \<not> truthy messageId \<or> \<not> truthy content'
            then emit_only
                   [(ToSocket sid, ''error'',
                     Object [(''message'', JStr ''messageId and content are required'')])] st
            else
              (case updateMessage newObjectId st messageId content' now of
                 Inl e \<Rightarrow>
                   emit_only
                     [(ToSocket sid, ''error'', Object [(''message'', JStr ''Failed to update message'')])] st
               | Inr (updated, st') \<Rightarrow>
                   if updated
                   then emit_only
                          [(ToAll, ''messageUpdated'',
                            Object [(''messageId'', messageId), (''content'', content')])] st'
                   else emit_only
                          [(ToSocket sid, ''error'', Object [(''message'', JStr ''Message not found'')])]
                          st')))"

definition on_deleteMessage ::
  "(jval \<Rightarrow> error + objectId) \<Rightarrow> store \<Rightarrow> nat \<Rightarrow> jval \<Rightarrow> outcome" where
  "on_deleteMessage newObjectId st sid data =
     (if nullish data
      then emit_only [(ToSocket sid, ''error'', Object [(''message'', JStr ''Failed to delete message'')])] st
      else
        (let messageId = getProp data ''messageId''
         in if \<not> truthy messageId
            then emit_only
                   [(ToSocket sid, ''error'', Object [(''message'', JStr ''messageId is required'')])] st
            else
              (case deleteMessage newObjectId st messageId of
                 Inl e \<Rightarrow>
                   emit_only
                     [(ToSocket sid, ''error'', Object [(''message'', JStr ''Failed to delete message'')])] st
               | Inr (deleted, st') \<Rightarrow>
                   if deleted
                   then emit_only [(ToAll, ''messageDeleted'', Object [(''messageId'', messageId)])] st'
                   else emit_only
                          [(ToSocket sid, ''error'', Object [(''message'', JStr ''Message not found'')])]
                          st')))"

section \<open>The running server\<close>

text \<open>
  \<open>new Date()\<close> reads the wall clock, which the system may set forward or back at any
  time: a request carries the readings its handler takes, in milliseconds, and they are
  any integers (two for a create: \<open>timestamp\<close>, then \<open>createdAt\<close>; one for an update).
  The ids that \<open>uuidv4()\<close> and the driver generate come with the request that needs them.
  \<open>MongoConnected docs\<close> is the connection promise resolving, which happens at most once:
  from then on \<open>db\<close> is set. A handler and its one storage call are taken as a single
  step: what other handlers do while a call to the database is awaited is not modelled.
\<close>

datatype request =
    MongoConnected "message list"
  | GET_messages
  | POST_messages jval int int string objectId
  | PUT_message string jval int
  | DELETE_message string
  | Connection nat
  | SendMessage nat jval int int string objectId
  | UpdateMessage nat jval int
  | DeleteMessage nat jval

fun handle :: "(jval \<Rightarrow> error + objectId) \<Rightarrow> store \<Rightarrow> request \<Rightarrow> outcome" where
  "handle newObjectId st (MongoConnected docs) =
     emit_only [] (if db st = None then st\<lparr>db := Some docs\<rparr> else st)"
| "handle newObjectId st GET_messages = get_api_messages st"
| "handle newObjectId st (POST_messages body t1 t2 uuid generated) =
     post_api_messages st body t1 t2 uuid generated"
| "handle newObjectId st (PUT_message id' body now) =
     put_api_messages_id newObjectId st id' body now"
| "handle newObjectId st (DELETE_message id') = delete_api_messages_id newObjectId st id'"
| "handle newObjectId st (Connection sid) = on_connection st sid"
| "handle newObjectId st (SendMessage sid data t1 t2 uuid generated) =
     on_sendMessage st sid data t1 t2 uuid generated"
| "handle newObjectId st (UpdateMessage sid data now) =
     on_updateMessage newObjectId st sid data now"
| "handle newObjectId st (DeleteMessage sid data) = on_deleteMessage newObjectId st sid data"

definition step :: "(jval \<Rightarrow> error + objectId) \<Rightarrow> store \<Rightarrow> request \<Rightarrow> store" where
  "step newObjectId st r = after (handle newObjectId st r)"

definition run :: "(jval \<Rightarrow> error + objectId) \<Rightarrow> store \<Rightarrow> request list \<Rightarrow> store" where
  "run newObjectId st rs = foldl (step newObjectId) st rs"

text \<open>The server at start: \<open>db\<close> unset, the in-memory array empty.\<close>

definition initial :: store where
  "initial = \<lparr>db = None, messages = []\<rparr>"

text \<open>The reading a request stamps on the message it creates, if it is a create.\<close>

fun stamps :: "request \<Rightarrow> int list" where
  "stamps (POST_messages body t1 t2 uuid generated) = [t1]"
| "stamps (SendMessage sid data t1 t2 uuid generated) = [t1]"
| "stamps r = []"

section \<open>An ObjectId constructor for the examples\<close>

text \<open>
  The examples need one constructor to run with. This one accepts a string of 24
  hexadecimal digits, read without regard to case, and throws on every other argument.
  The examples apply it to such strings and to the three characters \<open>abc\<close>, which no
  version of the driver accepts.
\<close>

definition hexLower :: "char \<Rightarrow> char" where
  "hexLower c = (case map_of (zip ''ABCDEF'' ''abcdef'') c of Some l \<Rightarrow> l | None \<Rightarrow> c)"

definition hexObjectId :: "jval \<Rightarrow> error + objectId" where
  "hexObjectId v =
     (case v of
        JStr s \<Rightarrow>
          if length s = 24 \<and> list_all (\<lambda>c. c \<in> set ''0123456789abcdefABCDEF'') s
          then Inr (ObjectId (map hexLower s))
          else Inl BSONError
      | _ \<Rightarrow> Inl BSONError)"

section \<open>Example stores\<close>

text \<open>Concrete stores on which the theorems below are run: an in-memory array in which
  one id occurs twice, and a database holding one document that was updated at 2000.\<close>


definition example_uuid_message :: "string \<Rightarrow> string \<Rightarrow> int \<Rightarrow> message" where
  "example_uuid_message uuid text t =
     \<lparr>senderId = JStr ''u1'', content = JStr text, conversationId = JStr ''general'',
      timestamp = t, createdAt = t, updatedAt = None, msg_id = Uuid uuid\<rparr>"

definition example_memory :: store where
  "example_memory =
     \<lparr>db = None,
      messages = [example_uuid_message ''a1'' ''one'' 10, example_uuid_message ''b2'' ''two'' 20,
                  example_uuid_message ''b2'' ''three'' 30]\<rparr>"

definition example_oid :: string where
  "example_oid = ''507f1f77bcf86cd799439011''"

definition example_doc :: message where
  "example_doc =
     \<lparr>senderId = JStr ''u1'', content = JStr ''hi'', conversationId = JStr ''general'',
      timestamp = 1000, createdAt = 1000, updatedAt = Some 2000,
      msg_id = Oid (ObjectId example_oid)\<rparr>"

definition example_database :: store where
  "example_database = \<lparr>db = Some [example_doc], messages = []\<rparr>"

section \<open>Facts about the storage helpers\<close>

text \<open>\<open>findIndex\<close> finds the first match; the driver's calls act on the first match.\<close>


lemma findIndex_lower: "- 1 \<le> findIndex P xs"
  by (induction xs) (auto simp: Let_def)

lemma findIndex_none: "(findIndex P xs = - 1) = (\<forall>x\<in>set xs. \<not> P x)"
proof (induction xs)
  case Nil
  show ?case by simp
next
  case (Cons x xs)
  have "- 1 \<le> findIndex P xs" by (rule findIndex_lower)
  with Cons show ?case by (auto simp: Let_def)
qed

lemma findIndex_prefix:
  "\<forall>y\<in>set ys. \<not> P y \<Longrightarrow> P m \<Longrightarrow> findIndex P (ys @ m # zs) = int (length ys)"
  by (induction ys) (auto simp: Let_def)

lemma findIndex_split:
  assumes "findIndex P xs \<noteq> - 1"
  shows "\<exists>ys m zs. xs = ys @ m # zs \<and> (\<forall>y\<in>set ys. \<not> P y) \<and> P m
           \<and> findIndex P xs = int (length ys)"
proof -
  from assms have "\<exists>x\<in>set xs. P x" by (simp add: findIndex_none)
  then obtain ys m zs where s: "xs = ys @ m # zs" "P m" "\<forall>y\<in>set ys. \<not> P y"
    by (auto simp: split_list_first_prop_iff)
  then have "findIndex P xs = int (length ys)" by (simp add: findIndex_prefix)
  with s show ?thesis by blast
qed

lemma splice1_middle: "splice1 (length ys) (ys @ m # zs) = ys @ zs"
  by (simp add: splice1_def)

lemma updateOne_none:
  "\<forall>d\<in>set ds. \<not> q d \<Longrightarrow> updateOne q u ds = (\<lparr>matchedCount = 0, modifiedCount = 0\<rparr>, ds)"
  by (induction ds) auto

lemma updateOne_first:
  "\<forall>y\<in>set ys. \<not> q y \<Longrightarrow> q m \<Longrightarrow>
   updateOne q u (ys @ m # zs) =
     (\<lparr>matchedCount = 1, modifiedCount = (if u m = m then 0 else 1)\<rparr>, ys @ u m # zs)"
  by (induction ys) auto

lemma deleteOne_none: "\<forall>d\<in>set ds. \<not> q d \<Longrightarrow> deleteOne q ds = (0, ds)"
  by (induction ds) auto

lemma deleteOne_first:
  "\<forall>y\<in>set ys. \<not> q y \<Longrightarrow> q m \<Longrightarrow> deleteOne q (ys @ m # zs) = (1, ys @ zs)"
  by (induction ys) auto


lemma updateMessage_memory_absent:
  assumes "db st = None" and "\<forall>m\<in>set (messages st). \<not> strict_eq (msg_id m) messageId"
  shows "updateMessage newObjectId st messageId c now = Inr (False, st)"
  using assms by (simp add: updateMessage_def findIndex_none)

lemma deleteMessage_memory_found:
  assumes "db st = None" and "messages st = ys @ m # zs"
    and "\<forall>y\<in>set ys. \<not> strict_eq (msg_id y) messageId" and "strict_eq (msg_id m) messageId"
  shows "deleteMessage newObjectId st messageId = Inr (True, st\<lparr>messages := ys @ zs\<rparr>)"
proof -
  have "findIndex (\<lambda>msg. strict_eq (msg_id msg) messageId) (messages st) = int (length ys)"
    using assms by (simp add: findIndex_prefix)
  then show ?thesis using assms by (simp add: deleteMessage_def splice1_middle)
qed

lemma deleteMessage_memory_absent:
  assumes "db st = None" and "\<forall>m\<in>set (messages st). \<not> strict_eq (msg_id m) messageId"
  shows "deleteMessage newObjectId st messageId = Inr (False, st)"
  using assms by (simp add: deleteMessage_def findIndex_none)

lemma updateMessage_db_throws:
  "db st = Some docs \<Longrightarrow> newObjectId messageId = Inl e \<Longrightarrow>
   updateMessage newObjectId st messageId c now = Inl e"
  by (simp add: updateMessage_def)

lemma deleteMessage_db_throws:
  "db st = Some docs \<Longrightarrow> newObjectId messageId = Inl e \<Longrightarrow>
   deleteMessage newObjectId st messageId = Inl e"
  by (simp add: deleteMessage_def)

lemma store_db_same: "db st = Some docs \<Longrightarrow> st\<lparr>db := Some docs\<rparr> = st"
  by simp

lemma updateMessage_db_absent:
  assumes "db st = Some docs" and "newObjectId messageId = Inr oid"
    and "\<forall>d\<in>set docs. msg_id d \<noteq> Oid oid"
  shows "updateMessage newObjectId st messageId c now = Inr (False, st)"
  using assms by (simp add: updateMessage_def updateOne_none)

lemma deleteMessage_db_absent:
  assumes "db st = Some docs" and "newObjectId messageId = Inr oid"
    and "\<forall>d\<in>set docs. msg_id d \<noteq> Oid oid"
  shows "deleteMessage newObjectId st messageId = Inr (False, st)"
  using assms by (simp add: deleteMessage_def deleteOne_none)

lemma updateMessage_db_found:
  assumes "db st = Some (ys @ m # zs)" and "newObjectId messageId = Inr oid"
    and "\<forall>y\<in>set ys. msg_id y \<noteq> Oid oid" and "msg_id m = Oid oid"
  shows "updateMessage newObjectId st messageId c now =
           Inr (m\<lparr>content := c, updatedAt := Some now\<rparr> \<noteq> m,
                st\<lparr>db := Some (ys @ m\<lparr>content := c, updatedAt := Some now\<rparr> # zs)\<rparr>)"
  using assms by (simp add: updateMessage_def updateOne_first)

lemma deleteMessage_db_found:
  assumes "db st = Some (ys @ m # zs)" and "newObjectId messageId = Inr oid"
    and "\<forall>y\<in>set ys. msg_id y \<noteq> Oid oid" and "msg_id m = Oid oid"
  shows "deleteMessage newObjectId st messageId = Inr (True, st\<lparr>db := Some (ys @ zs)\<rparr>)"
  using assms by (simp add: deleteMessage_def deleteOne_first)

lemmas examples =
  example_uuid_message_def example_memory_def example_oid_def example_doc_def
  example_database_def

lemma hexObjectId_example: "hexObjectId (JStr example_oid) = Inr (ObjectId example_oid)"
  by (simp add: hexObjectId_def example_oid_def hexLower_def)

lemma hexObjectId_abc: "hexObjectId (JStr ''abc'') = Inl BSONError"
  by (simp add: hexObjectId_def)

section \<open>Properties of the server\<close>

text \<open>
  C10. On the in-memory fallback, for every id present in the array, delete removes
  exactly the first message whose \<open>_id\<close> equals the id: the array is split at that
  message into what stands before it (nothing there has the id) and what stands after
  it, the two parts are what is left, in their order and unchanged, and the array is
  one shorter.
\<close>
theorem delete_memory_removes_first:
  assumes "db st = None"
    and "\<exists>m\<in>set (messages st). strict_eq (msg_id m) messageId"
  shows "\<exists>ys m zs. messages st = ys @ m # zs
           \<and> (\<forall>y\<in>set ys. \<not> strict_eq (msg_id y) messageId)
           \<and> strict_eq (msg_id m) messageId
           \<and> deleteMessage newObjectId st messageId = Inr (True, st\<lparr>messages := ys @ zs\<rparr>)
           \<and> Suc (length (ys @ zs)) = length (messages st)"
proof -
  from assms(2) have "findIndex (\<lambda>msg. strict_eq (msg_id msg) messageId) (messages st) \<noteq> - 1"
    by (simp add: findIndex_none)
  then obtain ys m zs where s: "messages st = ys @ m # zs"
      "\<forall>y\<in>set ys. \<not> strict_eq (msg_id y) messageId" "strict_eq (msg_id m) messageId"
    using findIndex_split by blast
  have "deleteMessage newObjectId st messageId = Inr (True, st\<lparr>messages := ys @ zs\<rparr>)"
    using assms(1) s by (rule deleteMessage_memory_found)
  moreover have "Suc (length (ys @ zs)) = length (messages st)" using s(1) by simp
  ultimately show ?thesis using s by blast
qed

theorem delete_memory_removes_first_witness:
  "db example_memory = None
   \<and> (\<exists>m\<in>set (messages example_memory). strict_eq (msg_id m) (JStr ''b2''))
   \<and> deleteMessage hexObjectId example_memory (JStr ''b2'') =
       Inr (True, \<lparr>db = None,
                  messages = [example_uuid_message ''a1'' ''one'' 10,
                              example_uuid_message ''b2'' ''three'' 30]\<rparr>)"
proof -
  have h1: "db example_memory = None" by (simp add: examples)
  have h2: "\<exists>m\<in>set (messages example_memory). strict_eq (msg_id m) (JStr ''b2'')"
    by (simp add: examples)
  obtain ys m zs where s: "messages example_memory = ys @ m # zs"
      "\<forall>y\<in>set ys. \<not> strict_eq (msg_id y) (JStr ''b2'')" "strict_eq (msg_id m) (JStr ''b2'')"
      "deleteMessage hexObjectId example_memory (JStr ''b2'') =
         Inr (True, example_memory\<lparr>messages := ys @ zs\<rparr>)"
    using delete_memory_removes_first [OF h1 h2, of hexObjectId] by blast
  have "deleteMessage hexObjectId example_memory (JStr ''b2'') =
       Inr (True, \<lparr>db = None,
                  messages = [example_uuid_message ''a1'' ''one'' 10,
                              example_uuid_message ''b2'' ''three'' 30]\<rparr>)"
    by (simp add: deleteMessage_def examples splice1_def Let_def)
  with h1 h2 show ?thesis by blast
qed

text \<open>
  C4, as stated, fails: a POST for which no body was parsed (\<open>req.body\<close> is
  \<open>undefined\<close>) is missing both fields, and it is answered 500, not 400: destructuring
  the body throws, and the handler's \<open>catch\<close> answers.
\<close>
theorem post_without_body_500:
  "\<not> truthy (getProp JUndefined ''senderId'')
   \<and> \<not> truthy (getProp JUndefined ''content'')
   \<and> response (post_api_messages example_memory JUndefined 40 40 ''c3'' (ObjectId example_oid)) =
       Some (500, Object [(''error'', JStr ''Failed to create message'')])"
  by (simp add: post_api_messages_def respond_def)

text \<open>
  C4, amended. A POST whose body lacks \<open>senderId\<close> or \<open>content\<close> (absent, the empty
  string, or any other falsy value) leaves the store, and with it the listed messages,
  unchanged and emits nothing. It is answered 400 when \<open>req.body\<close> is a value to
  destructure, and 500 when \<open>req.body\<close> is \<open>undefined\<close> or \<open>null\<close>.
\<close>
theorem post_missing_field:
  assumes "\<not> truthy (getProp body ''senderId'') \<or> \<not> truthy (getProp body ''content'')"
  shows "response (post_api_messages st body t1 t2 uuid generated) =
           (if nullish body
            then Some (500, Object [(''error'', JStr ''Failed to create message'')])
            else Some (400, Object [(''error'', JStr ''senderId and content are required'')]))
         \<and> after (post_api_messages st body t1 t2 uuid generated) = st
         \<and> getMessages (after (post_api_messages st body t1 t2 uuid generated)) = getMessages st
         \<and> emitted (post_api_messages st body t1 t2 uuid generated) = []"
  using assms by (auto simp: post_api_messages_def respond_def Let_def)

theorem post_missing_field_witness:
  "response (post_api_messages example_memory (JObj [(''senderId'', JStr ''u1''), (''content'', JStr '''')])
       40 40 ''c3'' (ObjectId example_oid)) =
     Some (400, Object [(''error'', JStr ''senderId and content are required'')])
   \<and> after (post_api_messages example_memory (JObj [(''senderId'', JStr ''u1''), (''content'', JStr '''')])
       40 40 ''c3'' (ObjectId example_oid)) = example_memory
   \<and> emitted (post_api_messages example_memory (JObj [(''senderId'', JStr ''u1''), (''content'', JStr '''')])
       40 40 ''c3'' (ObjectId example_oid)) = []
   \<and> response (post_api_messages example_memory JNull 40 40 ''c3'' (ObjectId example_oid)) =
     Some (500, Object [(''error'', JStr ''Failed to create message'')])
   \<and> after (post_api_messages example_memory JNull 40 40 ''c3'' (ObjectId example_oid)) =
     example_memory"
  using post_missing_field [of "JObj [(''senderId'', JStr ''u1''), (''content'', JStr '''')]"
      example_memory 40 40 "''c3''" "ObjectId example_oid"]
    post_missing_field [of JNull example_memory 40 40 "''c3''" "ObjectId example_oid"]
  by simp

text \<open>
  C8. An inbound \<open>deleteMessage\<close> whose payload carries no message id (the handler
  reads it from the property \<open>messageId\<close>: absent, falsy, or the payload is not an
  object at all) emits one \<open>error\<close> event, to the originating connection only;
  nothing is broadcast and the store is unchanged.
\<close>
theorem deleteMessage_event_without_id:
  assumes "\<not> truthy (getProp data ''messageId'')"
  shows "\<exists>text. emitted (on_deleteMessage newObjectId st sid data) =
                  [(ToSocket sid, ''error'', Object [(''message'', JStr text)])]
         \<and> after (on_deleteMessage newObjectId st sid data) = st
         \<and> response (on_deleteMessage newObjectId st sid data) = None"
  using assms by (auto simp: on_deleteMessage_def emit_only_def Let_def)

theorem deleteMessage_event_without_id_witness:
  "emitted (on_deleteMessage hexObjectId example_memory 7 (JObj [])) =
     [(ToSocket 7, ''error'', Object [(''message'', JStr ''messageId is required'')])]
   \<and> after (on_deleteMessage hexObjectId example_memory 7 (JObj [])) = example_memory"
proof -
  have h: "\<not> truthy (getProp (JObj []) ''messageId'')" by simp
  have "emitted (on_deleteMessage hexObjectId example_memory 7 (JObj [])) =
     [(ToSocket 7, ''error'', Object [(''message'', JStr ''messageId is required'')])]"
    by (simp add: on_deleteMessage_def emit_only_def)
  with deleteMessage_event_without_id [OF h, of hexObjectId example_memory 7]
  show ?thesis by simp
qed

subsection \<open>Creating over REST\<close>

lemma truthy_not_nullish: "truthy (getProp body k) \<Longrightarrow> \<not> nullish body"
  by (cases body) auto

lemma getMessages_saveMessage:
  "set (getMessages (snd (saveMessage st m uuid generated))) =
     insert (fst (saveMessage st m uuid generated)) (set (getMessages st))"
  by (auto simp: getMessages_def saveMessage_def insertOne_def find_sort_timestamp_def Let_def
      split: option.splits)

lemma length_getMessages_saveMessage:
  "length (getMessages (snd (saveMessage st m uuid generated))) = Suc (length (getMessages st))"
  by (auto simp: getMessages_def saveMessage_def insertOne_def find_sort_timestamp_def Let_def
      split: option.splits)

lemma saveMessage_fields:
  "senderId (fst (saveMessage st m uuid generated)) = senderId m
   \<and> content (fst (saveMessage st m uuid generated)) = content m
   \<and> conversationId (fst (saveMessage st m uuid generated)) = conversationId m
   \<and> timestamp (fst (saveMessage st m uuid generated)) = timestamp m
   \<and> createdAt (fst (saveMessage st m uuid generated)) = createdAt m
   \<and> updatedAt (fst (saveMessage st m uuid generated)) = updatedAt m"
  by (auto simp: saveMessage_def insertOne_def Let_def split: option.splits)

text \<open>
  C7. A POST with truthy (so non-empty) \<open>senderId\<close> and \<open>content\<close> and no
  \<open>conversationId\<close> is answered 201 with the stored message \<open>M\<close>: it has the given
  \<open>senderId\<close> and \<open>content\<close> and the conversation \<open>general\<close>, it is what the list of the
  active backend gains, and the one event emitted is \<open>newMessage\<close> with the same \<open>M\<close>,
  to all connections.
\<close>
theorem post_creates_and_broadcasts:
  assumes "truthy (getProp body ''senderId'')" and "truthy (getProp body ''content'')"
    and "\<not> truthy (getProp body ''conversationId'')"
  shows "\<exists>M. response (post_api_messages st body t1 t2 uuid generated) = Some (201, Message M)
           \<and> emitted (post_api_messages st body t1 t2 uuid generated) =
               [(ToAll, ''newMessage'', Message M)]
           \<and> senderId M = getProp body ''senderId''
           \<and> content M = getProp body ''content''
           \<and> conversationId M = JStr ''general''
           \<and> set (getMessages (after (post_api_messages st body t1 t2 uuid generated))) =
               insert M (set (getMessages st))
           \<and> length (getMessages (after (post_api_messages st body t1 t2 uuid generated))) =
               Suc (length (getMessages st))"
proof -
  define message where "message =
    \<lparr>senderId = getProp body ''senderId'', content = getProp body ''content'',
     conversationId = or_else (getProp body ''conversationId'') (JStr ''general''),
     timestamp = t1, createdAt = t2, updatedAt = None, msg_id = NoId\<rparr>"
  define saved where "saved = saveMessage st message uuid generated"
  have nn: "\<not> nullish body" using assms(1) by (rule truthy_not_nullish)
  have out: "post_api_messages st body t1 t2 uuid generated =
      respond 201 (Message (fst saved)) [(ToAll, ''newMessage'', Message (fst saved))] (snd saved)"
    using assms(1,2) nn
    by (simp add: post_api_messages_def Let_def message_def saved_def split_beta)
  have conv: "conversationId message = JStr ''general''"
    using assms(3) by (simp add: message_def or_else_def)
  have f: "senderId (fst saved) = getProp body ''senderId''"
      "content (fst saved) = getProp body ''content''"
      "conversationId (fst saved) = JStr ''general''"
    using saveMessage_fields [of st message uuid generated] conv
    by (simp_all add: saved_def message_def)
  have s: "set (getMessages (snd saved)) = insert (fst saved) (set (getMessages st))"
    unfolding saved_def by (rule getMessages_saveMessage)
  have l: "length (getMessages (snd saved)) = Suc (length (getMessages st))"
    unfolding saved_def by (rule length_getMessages_saveMessage)
  show ?thesis
    unfolding out using f s l by (simp add: respond_def)
qed

theorem post_creates_and_broadcasts_witness:
  "response (post_api_messages example_memory (JObj [(''senderId'', JStr ''u1''), (''content'', JStr ''hi'')])
       40 41 ''c3'' (ObjectId example_oid)) =
     Some (201, Message \<lparr>senderId = JStr ''u1'', content = JStr ''hi'',
                          conversationId = JStr ''general'', timestamp = 40, createdAt = 41,
                          updatedAt = None, msg_id = Uuid ''c3''\<rparr>)
   \<and> emitted (post_api_messages example_memory (JObj [(''senderId'', JStr ''u1''), (''content'', JStr ''hi'')])
       40 41 ''c3'' (ObjectId example_oid)) =
     [(ToAll, ''newMessage'', Message \<lparr>senderId = JStr ''u1'', content = JStr ''hi'',
                          conversationId = JStr ''general'', timestamp = 40, createdAt = 41,
                          updatedAt = None, msg_id = Uuid ''c3''\<rparr>)]"
proof -
  let ?body = "JObj [(''senderId'', JStr ''u1''), (''content'', JStr ''hi'')]"
  let ?out = "post_api_messages example_memory ?body 40 41 ''c3'' (ObjectId example_oid)"
  have h: "truthy (getProp ?body ''senderId'')" "truthy (getProp ?body ''content'')"
      "\<not> truthy (getProp ?body ''conversationId'')"
    by simp_all
  obtain M where m: "response ?out = Some (201, Message M)"
      "emitted ?out = [(ToAll, ''newMessage'', Message M)]"
    using post_creates_and_broadcasts [OF h, of example_memory 40 41 "''c3''" "ObjectId example_oid"]
    by blast
  have "response ?out = Some (201, Message \<lparr>senderId = JStr ''u1'', content = JStr ''hi'',
                          conversationId = JStr ''general'', timestamp = 40, createdAt = 41,
                          updatedAt = None, msg_id = Uuid ''c3''\<rparr>)"
    by (simp add: post_api_messages_def saveMessage_def respond_def or_else_def examples Let_def)
  with m show ?thesis by simp
qed

subsection \<open>Ids the database cannot hold\<close>

text \<open>
  C9, as stated, fails: a PUT that supplies no \<open>content\<close> is answered 400 before the
  ObjectId constructor is reached, also with the database active and an id the
  constructor rejects.
\<close>
theorem put_without_content_invalid_id:
  "hexObjectId (JStr ''abc'') = Inl BSONError
   \<and> response (put_api_messages_id hexObjectId example_database ''abc'' (JObj []) 3000) =
       Some (400, Object [(''error'', JStr ''content is required'')])"
  by (simp add: hexObjectId_def put_api_messages_id_def respond_def)

text \<open>
  C9, amended. With the database active and an id on which the ObjectId constructor
  throws, a PUT that supplies \<open>content\<close> and every DELETE are answered 500 with the
  handler's generic error body (so never 404); nothing is emitted and the store is
  unchanged.
\<close>
theorem invalid_id_answers_500:
  assumes "db st = Some docs" and "newObjectId (JStr id') = Inl e"
  shows "(truthy (getProp body ''content'') \<longrightarrow>
            put_api_messages_id newObjectId st id' body now =
              respond 500 (Object [(''error'', JStr ''Failed to update message'')]) [] st)
         \<and> delete_api_messages_id newObjectId st id' =
              respond 500 (Object [(''error'', JStr ''Failed to delete message'')]) [] st"
proof -
  have u: "updateMessage newObjectId st (JStr id') c now = Inl e" for c
    using assms by (rule updateMessage_db_throws)
  have d: "deleteMessage newObjectId st (JStr id') = Inl e"
    using assms by (rule deleteMessage_db_throws)
  show ?thesis
    using u d truthy_not_nullish [of body "''content''"]
    by (auto simp: put_api_messages_id_def delete_api_messages_id_def Let_def)
qed

theorem invalid_id_answers_500_witness:
  "response (put_api_messages_id hexObjectId example_database ''abc''
       (JObj [(''content'', JStr ''x'')]) 3000) =
     Some (500, Object [(''error'', JStr ''Failed to update message'')])
   \<and> response (delete_api_messages_id hexObjectId example_database ''abc'') =
     Some (500, Object [(''error'', JStr ''Failed to delete message'')])
   \<and> after (put_api_messages_id hexObjectId example_database ''abc''
       (JObj [(''content'', JStr ''x'')]) 3000) = example_database
   \<and> after (delete_api_messages_id hexObjectId example_database ''abc'') = example_database"
proof -
  have h1: "db example_database = Some [example_doc]" by (simp add: example_database_def)
  have h2: "hexObjectId (JStr ''abc'') = Inl BSONError" by (rule hexObjectId_abc)
  have h3: "truthy (getProp (JObj [(''content'', JStr ''x'')]) ''content'')" by simp
  from invalid_id_answers_500
         [where newObjectId = hexObjectId and id' = "''abc''"
            and body = "JObj [(''content'', JStr ''x'')]" and now = 3000, OF h1 h2] h3
  show ?thesis by (simp add: respond_def)
qed

subsection \<open>Ids that are not stored\<close>

text \<open>
  C5, as stated, fails on the database: no document is stored, the id \<open>abc\<close> is
  therefore not present, and PUT and DELETE are answered 500, not 404.
\<close>
theorem malformed_id_not_404:
  "db \<lparr>db = Some [], messages = []\<rparr> = Some []
   \<and> response (put_api_messages_id hexObjectId \<lparr>db = Some [], messages = []\<rparr> ''abc''
         (JObj [(''content'', JStr ''x'')]) 3000) =
       Some (500, Object [(''error'', JStr ''Failed to update message'')])
   \<and> response (delete_api_messages_id hexObjectId \<lparr>db = Some [], messages = []\<rparr> ''abc'') =
       Some (500, Object [(''error'', JStr ''Failed to delete message'')])"
  by (simp add: put_api_messages_id_def delete_api_messages_id_def updateMessage_def
      deleteMessage_def hexObjectId_def respond_def)

text \<open>
  C5, amended. For an id that is not present in the active backend and, when the
  database is the active backend, that the ObjectId constructor accepts, a PUT that
  supplies \<open>content\<close> and a DELETE are answered 404, leave the store exactly as it was
  and emit nothing.
\<close>
theorem absent_id_answers_404:
  assumes "(db st = None \<and> (\<forall>m\<in>set (messages st). \<not> strict_eq (msg_id m) (JStr id')))
         \<or> (\<exists>docs oid. db st = Some docs \<and> newObjectId (JStr id') = Inr oid
               \<and> (\<forall>d\<in>set docs. msg_id d \<noteq> Oid oid))"
  shows "(truthy (getProp body ''content'') \<longrightarrow>
            put_api_messages_id newObjectId st id' body now =
              respond 404 (Object [(''error'', JStr ''Message not found'')]) [] st)
         \<and> delete_api_messages_id newObjectId st id' =
              respond 404 (Object [(''error'', JStr ''Message not found'')]) [] st"
proof -
  have u: "updateMessage newObjectId st (JStr id') c now = Inr (False, st)" for c
    using assms updateMessage_memory_absent updateMessage_db_absent by blast
  have d: "deleteMessage newObjectId st (JStr id') = Inr (False, st)"
    using assms deleteMessage_memory_absent deleteMessage_db_absent by blast
  show ?thesis
    using u d truthy_not_nullish [of body "''content''"]
    by (auto simp: put_api_messages_id_def delete_api_messages_id_def Let_def)
qed

theorem absent_id_answers_404_witness:
  "put_api_messages_id hexObjectId example_database ''0123456789abcdef01234567''
       (JObj [(''content'', JStr ''x'')]) 3000 =
     respond 404 (Object [(''error'', JStr ''Message not found'')]) [] example_database
   \<and> delete_api_messages_id hexObjectId example_database ''0123456789abcdef01234567'' =
     respond 404 (Object [(''error'', JStr ''Message not found'')]) [] example_database
   \<and> delete_api_messages_id hexObjectId example_memory ''zz'' =
     respond 404 (Object [(''error'', JStr ''Message not found'')]) [] example_memory"
proof -
  have h1: "(db example_database = None
        \<and> (\<forall>m\<in>set (messages example_database).
              \<not> strict_eq (msg_id m) (JStr ''0123456789abcdef01234567'')))
      \<or> (\<exists>docs oid. db example_database = Some docs
            \<and> hexObjectId (JStr ''0123456789abcdef01234567'') = Inr oid
            \<and> (\<forall>d\<in>set docs. msg_id d \<noteq> Oid oid))"
    by (simp add: examples hexObjectId_def hexLower_def)
  have h2: "(db example_memory = None
        \<and> (\<forall>m\<in>set (messages example_memory). \<not> strict_eq (msg_id m) (JStr ''zz'')))
      \<or> (\<exists>docs oid. db example_memory = Some docs \<and> hexObjectId (JStr ''zz'') = Inr oid
            \<and> (\<forall>d\<in>set docs. msg_id d \<noteq> Oid oid))"
    by (simp add: examples)
  have h3: "truthy (getProp (JObj [(''content'', JStr ''x'')]) ''content'')" by simp
  from absent_id_answers_404
         [where newObjectId = hexObjectId and st = example_database
            and id' = "''0123456789abcdef01234567''"
            and body = "JObj [(''content'', JStr ''x'')]" and now = 3000, OF h1]
       absent_id_answers_404
         [where newObjectId = hexObjectId and st = example_memory and id' = "''zz''"
            and body = JNull and now = 0, OF h2] h3
  show ?thesis by simp
qed

subsection \<open>What a successful REST update or delete broadcasts\<close>

text \<open>
  C3, as stated, fails: after a successful PUT and a successful DELETE of the message
  \<open>a1\<close>, the payload broadcast is not the one whose identifier property is named
  \<open>id\<close>.
\<close>
theorem broadcast_field_is_messageId:
  "response (put_api_messages_id hexObjectId example_memory ''a1''
       (JObj [(''content'', JStr ''new'')]) 50) =
     Some (200, Object [(''success'', JBool True),
                        (''message'', JStr ''Message updated successfully'')])
   \<and> emitted (put_api_messages_id hexObjectId example_memory ''a1''
       (JObj [(''content'', JStr ''new'')]) 50) \<noteq>
     [(ToAll, ''messageUpdated'', Object [(''id'', JStr ''a1''), (''content'', JStr ''new'')])]
   \<and> response (delete_api_messages_id hexObjectId example_memory ''a1'') =
     Some (200, Object [(''success'', JBool True),
                        (''message'', JStr ''Message deleted successfully'')])
   \<and> emitted (delete_api_messages_id hexObjectId example_memory ''a1'') \<noteq>
     [(ToAll, ''messageDeleted'', Object [(''id'', JStr ''a1'')])]"
  by (simp add: put_api_messages_id_def delete_api_messages_id_def updateMessage_def
      deleteMessage_def respond_def examples Let_def splice1_def)

text \<open>
  C3, amended. After a successful REST update of message \<open>id\<close> to content \<open>C\<close> the one
  event emitted is \<open>messageUpdated\<close>, to all connections, with the payload
  \<open>{messageId: id, content: C}\<close>; after a successful REST delete it is
  \<open>messageDeleted\<close> with \<open>{messageId: id}\<close>. The identifier property is named
  \<open>messageId\<close>.
\<close>
theorem rest_broadcast_payloads:
  "((\<exists>b. response (put_api_messages_id newObjectId st id' body now) = Some (200, b)) \<longrightarrow>
      emitted (put_api_messages_id newObjectId st id' body now) =
        [(ToAll, ''messageUpdated'',
          Object [(''messageId'', JStr id'), (''content'', getProp body ''content'')])])
   \<and> ((\<exists>b. response (delete_api_messages_id newObjectId st id') = Some (200, b)) \<longrightarrow>
      emitted (delete_api_messages_id newObjectId st id') =
        [(ToAll, ''messageDeleted'', Object [(''messageId'', JStr id')])])"
  by (auto simp: put_api_messages_id_def delete_api_messages_id_def respond_def Let_def
      split: sum.splits prod.splits if_splits)

theorem rest_broadcast_payloads_witness:
  "response (put_api_messages_id hexObjectId example_memory ''a1''
       (JObj [(''content'', JStr ''new'')]) 50) =
     Some (200, Object [(''success'', JBool True),
                        (''message'', JStr ''Message updated successfully'')])
   \<and> emitted (put_api_messages_id hexObjectId example_memory ''a1''
       (JObj [(''content'', JStr ''new'')]) 50) =
     [(ToAll, ''messageUpdated'', Object [(''messageId'', JStr ''a1''), (''content'', JStr ''new'')])]
   \<and> response (delete_api_messages_id hexObjectId example_memory ''a1'') =
     Some (200, Object [(''success'', JBool True),
                        (''message'', JStr ''Message deleted successfully'')])
   \<and> emitted (delete_api_messages_id hexObjectId example_memory ''a1'') =
     [(ToAll, ''messageDeleted'', Object [(''messageId'', JStr ''a1'')])]"
proof -
  have r1: "response (put_api_messages_id hexObjectId example_memory ''a1''
       (JObj [(''content'', JStr ''new'')]) 50) =
     Some (200, Object [(''success'', JBool True),
                        (''message'', JStr ''Message updated successfully'')])"
    by (simp add: put_api_messages_id_def updateMessage_def respond_def examples Let_def)
  have r2: "response (delete_api_messages_id hexObjectId example_memory ''a1'') =
     Some (200, Object [(''success'', JBool True),
                        (''message'', JStr ''Message deleted successfully'')])"
    by (simp add: delete_api_messages_id_def deleteMessage_def respond_def examples Let_def splice1_def)
  from rest_broadcast_payloads [of hexObjectId example_memory "''a1''"
         "JObj [(''content'', JStr ''new'')]" 50] r1 r2
  show ?thesis by simp
qed

subsection \<open>The order of the list\<close>

lemma sorted_splice1: "sorted (xs :: int list) \<Longrightarrow> sorted (splice1 i xs)"
proof -
  assume s: "sorted xs"
  have "sorted (take i xs @ drop i xs)" using s by simp
  then have cross: "\<forall>x\<in>set (take i xs). \<forall>y\<in>set (drop i xs). x \<le> y"
    unfolding sorted_append by blast
  have sub: "set (drop (Suc i) xs) \<subseteq> set (drop i xs)"
    by (rule set_drop_subset_set_drop) simp
  have "sorted (take i xs)" "sorted (drop (Suc i) xs)"
    using s by (simp_all add: sorted_wrt_take sorted_wrt_drop)
  with cross sub show ?thesis
    unfolding splice1_def sorted_append by blast
qed

lemma set_splice1: "set (splice1 i xs) \<subseteq> set xs"
  unfolding splice1_def using set_take_subset [of i xs] set_drop_subset [of "Suc i" xs] by auto

lemma map_splice1: "map f (splice1 i xs) = splice1 i (map f xs)"
  by (simp add: splice1_def take_map drop_map)

lemma map_timestamp_update:
  "map timestamp (xs[i := (xs ! i)\<lparr>content := c, updatedAt := u\<rparr>]) = map timestamp xs"
proof (rule nth_equalityI)
  show "length (map timestamp (xs[i := (xs ! i)\<lparr>content := c, updatedAt := u\<rparr>])) =
        length (map timestamp xs)"
    by simp
next
  fix j
  assume "j < length (map timestamp (xs[i := (xs ! i)\<lparr>content := c, updatedAt := u\<rparr>]))"
  then have "j < length xs" by simp
  then show "map timestamp (xs[i := (xs ! i)\<lparr>content := c, updatedAt := u\<rparr>]) ! j =
             map timestamp xs ! j"
    by (cases "j = i") simp_all
qed

lemma saveMessage_messages:
  "messages (snd (saveMessage st m uuid generated)) =
     (if db st = None then messages st @ [m\<lparr>msg_id := Uuid uuid\<rparr>] else messages st)"
  by (auto simp: saveMessage_def Let_def split_beta split: option.splits)

lemma updateMessage_timestamps:
  "updateMessage newObjectId st messageId c now = Inr (b, st') \<Longrightarrow>
   map timestamp (messages st') = map timestamp (messages st)"
  by (auto simp: updateMessage_def Let_def split_beta map_timestamp_update
      split: option.splits sum.splits if_splits)

lemma deleteMessage_timestamps:
  "deleteMessage newObjectId st messageId = Inr (b, st') \<Longrightarrow>
   map timestamp (messages st') = map timestamp (messages st)
   \<or> (\<exists>i. map timestamp (messages st') = splice1 i (map timestamp (messages st)))"
  by (auto simp: deleteMessage_def Let_def split_beta map_splice1
      split: option.splits sum.splits if_splits)

text \<open>The timestamps of the in-memory array after a request: as before, with one removed,
  or with the reading of the create appended.\<close>

lemma handle_timestamps:
  "map timestamp (messages (after (handle newObjectId st r))) = map timestamp (messages st)
   \<or> (\<exists>i. map timestamp (messages (after (handle newObjectId st r))) =
            splice1 i (map timestamp (messages st)))
   \<or> map timestamp (messages (after (handle newObjectId st r))) =
        map timestamp (messages st) @ stamps r"
proof (cases r)
  case (MongoConnected docs)
  then show ?thesis by (simp add: emit_only_def)
next
  case GET_messages
  then show ?thesis by (simp add: get_api_messages_def respond_def)
next
  case (POST_messages body t1 t2 uuid generated)
  then show ?thesis
    by (simp add: post_api_messages_def respond_def Let_def split_beta saveMessage_messages)
next
  case (PUT_message id' body now)
  then show ?thesis
    by (auto simp: put_api_messages_id_def respond_def Let_def
        dest: updateMessage_timestamps split: sum.splits)
next
  case (DELETE_message id')
  then show ?thesis
    using deleteMessage_timestamps [of newObjectId st "JStr id'"]
    by (auto simp: delete_api_messages_id_def respond_def split: sum.splits)
next
  case (Connection sid)
  then show ?thesis by (simp add: on_connection_def emit_only_def)
next
  case (SendMessage sid data t1 t2 uuid generated)
  then show ?thesis
    by (simp add: on_sendMessage_def emit_only_def Let_def split_beta saveMessage_messages)
next
  case (UpdateMessage sid data now)
  then show ?thesis
    by (auto simp: on_updateMessage_def emit_only_def Let_def
        dest: updateMessage_timestamps split: sum.splits)
next
  case (DeleteMessage sid data)
  then show ?thesis
    using deleteMessage_timestamps [of newObjectId st "getProp data ''messageId''"]
    by (auto simp: on_deleteMessage_def emit_only_def Let_def split: sum.splits)
qed

lemma step_keeps_order:
  assumes "sorted (map timestamp (messages st) @ stamps r @ rest)"
  shows "sorted (map timestamp (messages (step newObjectId st r)) @ rest)"
proof -
  let ?ts = "map timestamp (messages st)"
  let ?ts' = "map timestamp (messages (after (handle newObjectId st r)))"
  consider "?ts' = ?ts" | i where "?ts' = splice1 i ?ts" | "?ts' = ?ts @ stamps r"
    using handle_timestamps [of newObjectId st r] by blast
  then have "sorted (?ts' @ rest)"
  proof cases
    case 1
    with assms show ?thesis by (auto simp: sorted_append)
  next
    case 2
    have "sorted ?ts" using assms by (simp add: sorted_append)
    then have "sorted (splice1 i ?ts)" by (rule sorted_splice1)
    with 2 assms set_splice1 [of i ?ts] show ?thesis by (auto simp: sorted_append)
  next
    case 3
    with assms show ?thesis by simp
  qed
  then show ?thesis by (simp add: step_def)
qed

lemma run_keeps_order:
  "sorted (map timestamp (messages st) @ concat (map stamps rs)) \<Longrightarrow>
   sorted (map timestamp (messages (run newObjectId st rs)))"
proof (induction rs arbitrary: st)
  case Nil
  then show ?case by (simp add: run_def)
next
  case (Cons r rs)
  have "run newObjectId st (r # rs) = run newObjectId (step newObjectId st r) rs"
    by (simp add: run_def)
  moreover have "sorted (map timestamp (messages (step newObjectId st r)) @ concat (map stamps rs))"
    using Cons.prems by (intro step_keeps_order) simp
  ultimately show ?case using Cons.IH by simp
qed

text \<open>The database path lists in \<open>timestamp\<close> order whatever it holds. The in-memory
  path lists the array as it is: that is \<open>timestamp\<close> order when the readings of the
  creates came in non-decreasing order.\<close>

lemma database_list_sorted:
  "db st = Some docs \<Longrightarrow> sorted (map timestamp (getMessages st))"
  by (simp add: getMessages_def find_sort_timestamp_def)

lemma memory_list_sorted_if_readings_are:
  assumes "sorted (concat (map stamps rs))"
    and "db (run newObjectId initial rs) = None"
  shows "sorted (map timestamp (getMessages (run newObjectId initial rs)))"
proof -
  have "sorted (map timestamp (messages (run newObjectId initial rs)))"
    by (rule run_keeps_order) (use assms(1) in \<open>simp add: initial_def\<close>)
  with assms(2) show ?thesis by (simp add: getMessages_def)
qed

text \<open>
  C2 says that the list operation returns the messages in non-decreasing \<open>timestamp\<close>
  order in every reachable state, on both backends. The in-memory path does not: two
  creates, the wall clock set back between them from 200 to 100, and the list is in the
  order 200, 100. The same two creates after the database has connected are listed in
  the order 100, 200, because that path sorts.
\<close>
theorem memory_list_unsorted_after_clock_step_back:
  "map timestamp (getMessages (run hexObjectId initial
     [POST_messages (JObj [(''senderId'', JStr ''u1''), (''content'', JStr ''a'')]) 200 200 ''a1''
        (ObjectId example_oid),
      SendMessage 7 (JObj [(''senderId'', JStr ''u2''), (''content'', JStr ''b'')]) 100 100 ''b2''
        (ObjectId ''0123456789abcdef01234567'')])) = [200, 100]
   \<and> \<not> sorted (map timestamp (getMessages (run hexObjectId initial
     [POST_messages (JObj [(''senderId'', JStr ''u1''), (''content'', JStr ''a'')]) 200 200 ''a1''
        (ObjectId example_oid),
      SendMessage 7 (JObj [(''senderId'', JStr ''u2''), (''content'', JStr ''b'')]) 100 100 ''b2''
        (ObjectId ''0123456789abcdef01234567'')])))
   \<and> map timestamp (getMessages (run hexObjectId initial
     [MongoConnected [],
      POST_messages (JObj [(''senderId'', JStr ''u1''), (''content'', JStr ''a'')]) 200 200 ''a1''
        (ObjectId example_oid),
      SendMessage 7 (JObj [(''senderId'', JStr ''u2''), (''content'', JStr ''b'')]) 100 100 ''b2''
        (ObjectId ''0123456789abcdef01234567'')])) = [100, 200]"
  by (simp add: run_def step_def initial_def post_api_messages_def on_sendMessage_def
      saveMessage_def insertOne_def getMessages_def find_sort_timestamp_def respond_def
      emit_only_def or_else_def Let_def)

subsection \<open>Create, update, list\<close>








subsection \<open>What update reports\<close>

text \<open>On the in-memory path update reports whether the id was found. On the database it
  reports whether the document found was changed: the same content written again at the
  \<open>updatedAt\<close> the document already carries is reported as no match.\<close>

lemma update_memory_iff:
  assumes "db st = None"
  shows "(\<exists>st'. updateMessage newObjectId st messageId c now = Inr (True, st'))
         = (\<exists>m\<in>set (messages st). strict_eq (msg_id m) messageId)"
  using assms by (auto simp: updateMessage_def Let_def findIndex_none)

lemma update_db_iff:
  assumes "db st = Some (ys @ m # zs)" and "newObjectId messageId = Inr oid"
    and "\<forall>y\<in>set ys. msg_id y \<noteq> Oid oid" and "msg_id m = Oid oid"
  shows "(\<exists>st'. updateMessage newObjectId st messageId c now = Inr (True, st'))
         = (content m \<noteq> c \<or> updatedAt m \<noteq> Some now)"
proof -
  have "(m\<lparr>content := c, updatedAt := Some now\<rparr> = m) = (content m = c \<and> updatedAt m = Some now)"
    by (cases m) auto
  then show ?thesis
    using updateMessage_db_found
            [where newObjectId = newObjectId and st = st and messageId = messageId
               and c = c and now = now, OF assms]
    by auto
qed

text \<open>
  C1 says that update returns true exactly when a message with the id exists in the
  active backend, also when the new content equals the current one. On the database it
  does not: the server connects, a message is created, and a PUT sets the content to
  what it already is (answered 200, \<open>updatedAt\<close> becomes 2000): the store is
  \<open>example_database\<close>. The same update once more within the same millisecond finds the
  document, changes nothing, and returns false; the PUT is answered 404.
\<close>
theorem update_twice_same_millisecond:
  "run hexObjectId initial
     [MongoConnected [],
      POST_messages (JObj [(''senderId'', JStr ''u1''), (''content'', JStr ''hi'')]) 1000 1000
        ''a1'' (ObjectId example_oid),
      PUT_message example_oid (JObj [(''content'', JStr ''hi'')]) 2000] =
     example_database
   \<and> msg_id example_doc = Oid (ObjectId example_oid)
   \<and> hexObjectId (JStr example_oid) = Inr (ObjectId example_oid)
   \<and> updateMessage hexObjectId example_database (JStr example_oid) (JStr ''hi'') 2000 =
       Inr (False, example_database)
   \<and> response (put_api_messages_id hexObjectId example_database example_oid
         (JObj [(''content'', JStr ''hi'')]) 2000) =
       Some (404, Object [(''error'', JStr ''Message not found'')])"
  by (simp add: run_def step_def initial_def post_api_messages_def put_api_messages_id_def
      saveMessage_def insertOne_def updateMessage_def respond_def emit_only_def or_else_def
      hexObjectId_def hexLower_def examples Let_def)

end
